theory Spec2Isabelle
  imports Complex_Main "HOL-Library.Char_ord"
begin

section \<open>The expense tracker of examcode.py\<close>

text \<open>
  The program is one class, \<open>ExpenseTracker\<close>, that keeps a pandas DataFrame with the
  columns Date, Amount, Category and Description in \<open>self.data\<close> and rewrites a CSV file
  after every successful \<open>add_expense\<close>. The embedding follows the methods \<open>__init__\<close>,
  \<open>_clean_data\<close>, \<open>add_expense\<close> and \<open>filter_expenses\<close> one by one. The DataFrame is a
  list of rows, the file system is a map from file names to the data rows of a CSV file,
  and every method takes the tracker (and the files, where it touches them) and returns
  them.

  What the program calls but does not define (pandas' and Python's conversions between
  text and values, on one text or on a whole column, and the CSV reader's reading of a
  column) is taken as a parameter, the record \<open>lib\<close>: the theorems hold for every
  behaviour of the library.
\<close>

subsection \<open>Text: str.strip and str.lower\<close>

text \<open>
  A Python string is modelled by the list of its code points, for code points below 256.
  \<open>isspace\<close> lists the code points below 256 that \<open>str.strip()\<close> removes;
  \<open>lower_char\<close> is \<open>str.lower()\<close> on one such code point.
\<close>

definition isspace :: "char \<Rightarrow> bool" where
  "isspace c = (of_char c \<in> set [9, 10, 11, 12, 13, 28, 29, 30, 31, 32, 133, 160 :: nat])"

definition strip :: "string \<Rightarrow> string" where
  "strip s = rev (dropWhile isspace (rev (dropWhile isspace s)))"

definition lower_char :: "char \<Rightarrow> char" where
  "lower_char c =
     (let n = of_char c :: nat
      in if (65 \<le> n \<and> n \<le> 90) \<or> (192 \<le> n \<and> n \<le> 214) \<or> (216 \<le> n \<and> n \<le> 222)
         then char_of (n + 32) else c)"

definition lower :: "string \<Rightarrow> string" where
  "lower s = map lower_char s"

subsection \<open>datetime.strptime(date, "%Y-%m-%d")\<close>

text \<open>
  Python compiles the format to the regular expression
  \<^verbatim>\<open>(?P<Y>\d\d\d\d)-(?P<m>1[0-2]|0[1-9]|[1-9])-(?P<d>3[0-1]|[1-2]\d|0[1-9]|[1-9]| [1-9])\<close>,
  matches it at the start of the text, raises ValueError when the match fails or does not
  reach the end of the text, and then builds the date, which raises ValueError for the
  year 0 and for a day beyond the end of the month. \<open>None\<close> is the ValueError.
  In \<open>match_m\<close> the first alternative that matches is the only one after which the
  separator can follow, so no backtracking is lost.
\<close>

definition isdigit :: "char \<Rightarrow> bool" where
  "isdigit c = (CHR ''0'' \<le> c \<and> c \<le> CHR ''9'')"

definition digit19 :: "char \<Rightarrow> bool" where
  "digit19 c = (CHR ''1'' \<le> c \<and> c \<le> CHR ''9'')"

definition digit_val :: "char \<Rightarrow> nat" where
  "digit_val c = of_char c - 48"

fun match_m :: "string \<Rightarrow> (nat \<times> string) option" where
  "match_m (a # b # rest) =
     (if a = CHR ''1'' \<and> CHR ''0'' \<le> b \<and> b \<le> CHR ''2'' then Some (10 + digit_val b, rest)
      else if a = CHR ''0'' \<and> digit19 b then Some (digit_val b, rest)
      else if digit19 a then Some (digit_val a, b # rest)
      else None)"
| "match_m [a] = (if digit19 a then Some (digit_val a, []) else None)"
| "match_m [] = None"

fun match_d :: "string \<Rightarrow> nat option" where
  "match_d [a] = (if digit19 a then Some (digit_val a) else None)"
| "match_d [a, b] =
     (if a = CHR ''3'' \<and> CHR ''0'' \<le> b \<and> b \<le> CHR ''1'' then Some (30 + digit_val b)
      else if CHR ''1'' \<le> a \<and> a \<le> CHR ''2'' \<and> isdigit b then Some (10 * digit_val a + digit_val b)
      else if a = CHR ''0'' \<and> digit19 b then Some (digit_val b)
      else if a = CHR '' '' \<and> digit19 b then Some (digit_val b)
      else None)"
| "match_d _ = None"

definition is_leap :: "nat \<Rightarrow> bool" where
  "is_leap y = (y mod 4 = 0 \<and> (y mod 100 \<noteq> 0 \<or> y mod 400 = 0))"

definition days_in_month :: "nat \<Rightarrow> nat \<Rightarrow> nat" where
  "days_in_month y m =
     (if m = 2 then (if is_leap y then 29 else 28)
      else if m = 4 \<or> m = 6 \<or> m = 9 \<or> m = 11 then 30 else 31)"

definition strptime :: "string \<Rightarrow> (nat \<times> nat \<times> nat) option" where
  "strptime s =
     (case s of
        y1 # y2 # y3 # y4 # sep # rest \<Rightarrow>
          if isdigit y1 \<and> isdigit y2 \<and> isdigit y3 \<and> isdigit y4 \<and> sep = CHR ''-'' then
            (case match_m rest of
               Some (m, sep2 # rest2) \<Rightarrow>
                 if sep2 = CHR ''-'' then
                   (case match_d rest2 of
                      Some d \<Rightarrow>
                        (let y = 1000 * digit_val y1 + 100 * digit_val y2
                                 + 10 * digit_val y3 + digit_val y4
                         in if 1 \<le> y \<and> d \<le> days_in_month y m then Some (y, m, d) else None)
                    | None \<Rightarrow> None)
                 else None
             | _ \<Rightarrow> None)
          else None
      | _ \<Rightarrow> None)"

subsection \<open>Values of the cells\<close>

text \<open>
  A pandas Timestamp is a calendar date and the nanoseconds since midnight; timestamps
  are compared in that order, and \<open>valid_timestamp\<close> says that the date is one of the
  calendar. A Python float is a rational number, one of the two infinities, or NaN;
  every comparison with NaN is false (\<open>fle a b\<close> is Python's \<open>a <= b\<close>). The program's
  own code only compares floats; no arithmetic on them is modelled.
\<close>

datatype timestamp = Timestamp nat nat nat nat

fun ts_le :: "timestamp \<Rightarrow> timestamp \<Rightarrow> bool" where
  "ts_le (Timestamp y m d n) (Timestamp y' m' d' n') =
     (y < y' \<or> (y = y' \<and> (m < m' \<or> (m = m' \<and> (d < d' \<or> (d = d' \<and> n \<le> n'))))))"

fun valid_timestamp :: "timestamp \<Rightarrow> bool" where
  "valid_timestamp (Timestamp y m d n) =
     (1 \<le> y \<and> y \<le> 9999 \<and> 1 \<le> m \<and> m \<le> 12 \<and> 1 \<le> d \<and> d \<le> days_in_month y m
      \<and> n < 86400000000000)"

datatype pyfloat = Fin rat | PInf | NInf | NaN

fun fle :: "pyfloat \<Rightarrow> pyfloat \<Rightarrow> bool" where
  "fle NaN b = False"
| "fle a NaN = False"
| "fle NInf b = True"
| "fle a PInf = True"
| "fle (Fin a) (Fin b) = (a \<le> b)"
| "fle a b = False"

text \<open>\<open>fless a b\<close> is Python's \<open>a < b\<close>.\<close>

fun fless :: "pyfloat \<Rightarrow> pyfloat \<Rightarrow> bool" where
  "fless NaN b = False"
| "fless a NaN = False"
| "fless PInf b = False"
| "fless a NInf = False"
| "fless (Fin a) (Fin b) = (a < b)"
| "fless a b = True"

text \<open>
  A cell of a DataFrame that was read from a file: missing (NaN), or a value, kept as
  the text that \<open>str\<close> gives for it.
\<close>

datatype cell = NA | Text string

subsection \<open>The library\<close>

text \<open>
  \<^item> \<open>to_datetime\<close>: \<open>pd.to_datetime\<close> on one text; \<open>None\<close> is the failure, which raises
    a ValueError, or gives NaT under \<open>errors="coerce"\<close>.
  \<^item> \<open>py_float\<close>: Python's \<open>float(text)\<close>; \<open>None\<close> is the ValueError.
  \<^item> \<open>read_column\<close>: what \<open>pd.read_csv\<close> makes of the field at a position of a column of
    the file. It depends on the whole column, since pandas chooses one type for a column.
  \<^item> \<open>to_datetime_column\<close>: the value at a position of \<open>pd.to_datetime(column,
    errors="coerce")\<close>, \<open>None\<close> for NaT. It depends on the whole column, since pandas
    may take the format of the dates from the first of them.
  \<^item> \<open>to_numeric_column\<close>: the value at a position of \<open>pd.to_numeric(column,
    errors="coerce")\<close>, NaN where the cell does not convert.
  \<^item> \<open>astype_str_na\<close>: what \<open>astype(str)\<close> makes of a missing value: the text nan in
    pandas 2, a missing value still in pandas 3.
  \<^item> \<open>csv_date\<close>, \<open>csv_float\<close>: the text \<open>to_csv\<close> writes for a date and for a number.
\<close>

record lib =
  to_datetime :: "string \<Rightarrow> timestamp option"
  py_float :: "string \<Rightarrow> pyfloat option"
  read_column :: "string list \<Rightarrow> nat \<Rightarrow> cell"
  to_datetime_column :: "cell list \<Rightarrow> nat \<Rightarrow> timestamp option"
  to_numeric_column :: "cell list \<Rightarrow> nat \<Rightarrow> pyfloat"
  astype_str_na :: cell
  csv_date :: "timestamp \<Rightarrow> string"
  csv_float :: "pyfloat \<Rightarrow> string"

text \<open>A function of the library on a column gives a column of the same length.\<close>

definition column :: "('a list \<Rightarrow> nat \<Rightarrow> 'b) \<Rightarrow> 'a list \<Rightarrow> 'b list" where
  "column f xs = map (f xs) [0..<length xs]"

subsection \<open>The tracker and its file\<close>

text \<open>
  A row in memory has a Timestamp, a float, and two texts. A row of the file is four
  fields of text under the fixed header; a row just read from the file is four cells.
\<close>

record expense =
  Date :: timestamp
  Amount :: pyfloat
  Category :: string
  Description :: string

type_synonym csv_row = "string \<times> string \<times> string \<times> string"

type_synonym raw_row = "cell \<times> cell \<times> cell \<times> cell"

type_synonym files = "string \<rightharpoonup> csv_row list"

record tracker =
  filename :: string
  data :: "expense list"

text \<open>
  \<open>DataFrame.to_csv(index=False)\<close>: one row of the file for each row of the frame, a
  missing number written as the empty field.
\<close>

definition to_csv :: "lib \<Rightarrow> expense list \<Rightarrow> csv_row list" where
  "to_csv L df =
     map (\<lambda>r. (csv_date L (Date r),
                (if Amount r = NaN then [] else csv_float L (Amount r)),
                Category r, Description r)) df"

text \<open>
  \<open>pd.read_csv\<close>: one row of cells for each row of the file, each of the four columns
  read as a whole.
\<close>

definition read_csv :: "lib \<Rightarrow> csv_row list \<Rightarrow> raw_row list" where
  "read_csv L rows =
     zip (column (read_column L) (map (\<lambda>(d, a, c, x). d) rows))
       (zip (column (read_column L) (map (\<lambda>(d, a, c, x). a) rows))
         (zip (column (read_column L) (map (\<lambda>(d, a, c, x). c) rows))
              (column (read_column L) (map (\<lambda>(d, a, c, x). x) rows))))"

text \<open>
  \<open>_clean_data\<close>: on a frame that is not empty, the Date column goes through
  \<open>pd.to_datetime\<close> and the Amount column through \<open>pd.to_numeric\<close>, both with
  \<open>errors="coerce"\<close>; each category goes through \<open>astype(str)\<close> and \<open>str.strip()\<close>
  (\<open>coerce\<close> is the frame after these three assignments); then \<open>dropna\<close> drops every
  row with a missing value in any of the four columns.
\<close>

definition astype_str :: "lib \<Rightarrow> cell \<Rightarrow> cell" where
  "astype_str L c = (case c of NA \<Rightarrow> astype_str_na L | Text s \<Rightarrow> Text s)"

definition str_strip :: "cell \<Rightarrow> cell" where
  "str_strip c = (case c of NA \<Rightarrow> NA | Text s \<Rightarrow> Text (strip s))"

definition coerce ::
  "lib \<Rightarrow> raw_row list \<Rightarrow> (timestamp option \<times> pyfloat \<times> cell \<times> cell) list" where
  "coerce L raw =
     zip (column (to_datetime_column L) (map (\<lambda>(d, a, c, x). d) raw))
       (zip (column (to_numeric_column L) (map (\<lambda>(d, a, c, x). a) raw))
         (zip (map (\<lambda>(d, a, c, x). str_strip (astype_str L c)) raw)
              (map (\<lambda>(d, a, c, x). x) raw)))"

definition dropna :: "timestamp option \<times> pyfloat \<times> cell \<times> cell \<Rightarrow> expense option" where
  "dropna row =
     (case row of
        (Some d, a, Text c, Text x) \<Rightarrow>
          if a = NaN then None
          else Some \<lparr>Date = d, Amount = a, Category = c, Description = x\<rparr>
      | _ \<Rightarrow> None)"

definition clean_data :: "lib \<Rightarrow> raw_row list \<Rightarrow> expense list" where
  "clean_data L raw = (if raw = [] then [] else List.map_filter dropna (coerce L raw))"

text \<open>
  \<open>__init__\<close>: an existing file is read and cleaned; otherwise the frame is empty and a
  file with the header alone is written.
\<close>

definition init :: "lib \<Rightarrow> string \<Rightarrow> files \<Rightarrow> tracker \<times> files" where
  "init L name fs =
     (case fs name of
        Some rows \<Rightarrow> (\<lparr>filename = name, data = clean_data L (read_csv L rows)\<rparr>, fs)
      | None \<Rightarrow> (\<lparr>filename = name, data = []\<rparr>, fs(name \<mapsto> [])))"

text \<open>
  \<open>add_expense\<close> returns its boolean, the line it prints, the tracker and the files.
  Every ValueError raised in the \<open>try\<close> block (by \<open>strptime\<close>, by \<open>float\<close> and by
  \<open>pd.to_datetime\<close>) reaches the one \<open>except ValueError\<close> clause. Writing the file
  does not fail in the model.
\<close>

definition value_error :: "tracker \<Rightarrow> files \<Rightarrow> bool \<times> string \<times> tracker \<times> files" where
  "value_error t fs = (False, ''Invalid date format! Use YYYY-MM-DD'', t, fs)"

definition add_expense ::
  "lib \<Rightarrow> tracker \<Rightarrow> files \<Rightarrow> string \<Rightarrow> string \<Rightarrow> string \<Rightarrow> string
     \<Rightarrow> bool \<times> string \<times> tracker \<times> files" where
  "add_expense L t fs date amount category description =
     (case strptime date of
        None \<Rightarrow> value_error t fs
      | Some _ \<Rightarrow>
          (case py_float L amount of
             None \<Rightarrow> value_error t fs
           | Some a \<Rightarrow>
               if fle a (Fin 0) then (False, ''Amount must be positive.'', t, fs)
               else
                 (case to_datetime L date of
                    None \<Rightarrow> value_error t fs
                  | Some d \<Rightarrow>
                      (let new_row = \<lparr>Date = d, Amount = a, Category = strip category,
                                      Description = description\<rparr>;
                           t' = t\<lparr>data := data t @ [new_row]\<rparr>
                       in (True, '' Expense added successfully'', t',
                           fs(filename t' \<mapsto> to_csv L (data t')))))))"

subsection \<open>filter_expenses\<close>

text \<open>
  The method works on \<open>self.data.copy()\<close> and returns the copy; the tracker is returned
  beside it. A bound that \<open>pd.to_datetime(errors="coerce")\<close> cannot convert is NaT, and
  every comparison of a date with NaT is false. \<open>if min_amount:\<close> is false for
  \<open>None\<close> and for zero.
\<close>

definition date_ge :: "timestamp \<Rightarrow> timestamp option \<Rightarrow> bool" where
  "date_ge d bound = (case bound of None \<Rightarrow> False | Some b \<Rightarrow> ts_le b d)"

definition date_le :: "timestamp \<Rightarrow> timestamp option \<Rightarrow> bool" where
  "date_le d bound = (case bound of None \<Rightarrow> False | Some b \<Rightarrow> ts_le d b)"

definition lower_category :: "expense \<Rightarrow> expense" where
  "lower_category r = r\<lparr>Category := lower (strip (Category r))\<rparr>"

definition filter_expenses ::
  "lib \<Rightarrow> tracker \<Rightarrow> string option \<Rightarrow> string option \<Rightarrow> string list option
     \<Rightarrow> pyfloat option \<Rightarrow> pyfloat option \<Rightarrow> expense list \<times> tracker" where
  "filter_expenses L t start_date end_date categories min_amount max_amount =
     (let df = map lower_category (data t);
          df = (case start_date of None \<Rightarrow> df
                | Some s \<Rightarrow> filter (\<lambda>r. date_ge (Date r) (to_datetime L s)) df);
          df = (case end_date of None \<Rightarrow> df
                | Some s \<Rightarrow> filter (\<lambda>r. date_le (Date r) (to_datetime L s)) df);
          df = (case categories of None \<Rightarrow> df
                | Some cs \<Rightarrow>
                    filter (\<lambda>r. Category r \<in> set (map (\<lambda>c. lower (strip c)) cs)) df);
          df = (case min_amount of None \<Rightarrow> df
                | Some lo \<Rightarrow> if lo = Fin 0 then df else filter (\<lambda>r. fle lo (Amount r)) df);
          df = (case max_amount of None \<Rightarrow> df
                | Some hi \<Rightarrow> if hi = Fin 0 then df else filter (\<lambda>r. fle (Amount r) hi) df)
      in (df, t))"

text \<open>
  \<open>matches\<close> collects the five tests of \<open>filter_expenses\<close> on one row of the copy;
  \<open>filter_expenses_eq\<close> below shows that the method keeps exactly the rows that pass
  all of them.
\<close>

definition matches ::
  "lib \<Rightarrow> string option \<Rightarrow> string option \<Rightarrow> string list option
     \<Rightarrow> pyfloat option \<Rightarrow> pyfloat option \<Rightarrow> expense \<Rightarrow> bool" where
  "matches L start_date end_date categories min_amount max_amount r =
     ((case start_date of None \<Rightarrow> True | Some s \<Rightarrow> date_ge (Date r) (to_datetime L s))
      \<and> (case end_date of None \<Rightarrow> True | Some s \<Rightarrow> date_le (Date r) (to_datetime L s))
      \<and> (case categories of None \<Rightarrow> True
          | Some cs \<Rightarrow> Category r \<in> set (map (\<lambda>c. lower (strip c)) cs))
      \<and> (case min_amount of None \<Rightarrow> True | Some lo \<Rightarrow> lo = Fin 0 \<or> fle lo (Amount r))
      \<and> (case max_amount of None \<Rightarrow> True | Some hi \<Rightarrow> hi = Fin 0 \<or> fle (Amount r) hi))"

subsection \<open>The words of the specification\<close>

text \<open>
  The specification names the failures of \<open>add\<close> by an error kind; the program prints a
  line. \<open>error_kind_of\<close> reads the kind off the printed line. The row count of the store
  is the number of data rows of the tracker's file.
\<close>

datatype error_kind = InvalidDateFormat | InvalidAmount

definition error_kind_of :: "string \<Rightarrow> error_kind option" where
  "error_kind_of line =
     (if line = ''Invalid date format! Use YYYY-MM-DD'' then Some InvalidDateFormat
      else if line = ''Amount must be positive.'' then Some InvalidAmount
      else None)"

definition store_rows :: "files \<Rightarrow> string \<Rightarrow> nat option" where
  "store_rows fs name = map_option length (fs name)"

text \<open>
  The parts of the invariant of the collection: every date is a date of the calendar,
  every category is stripped, every amount is a number. \<open>as_cells\<close> is a row in memory
  seen as the cells of the cleaned frame it came from; \<open>converted\<close> says of such cells
  that the date and the amount converted, and \<open>present\<close> that the category and the
  description are there.
\<close>

definition dated :: "expense list \<Rightarrow> bool" where
  "dated df = list_all (\<lambda>r. valid_timestamp (Date r)) df"

definition trimmed :: "expense list \<Rightarrow> bool" where
  "trimmed df = list_all (\<lambda>r. strip (Category r) = Category r) df"

definition numeric :: "expense list \<Rightarrow> bool" where
  "numeric df = list_all (\<lambda>r. Amount r \<noteq> NaN) df"

definition as_cells :: "expense \<Rightarrow> timestamp option \<times> pyfloat \<times> cell \<times> cell" where
  "as_cells r = (Some (Date r), Amount r, Text (Category r), Text (Description r))"

definition converted :: "timestamp option \<times> pyfloat \<times> cell \<times> cell \<Rightarrow> bool" where
  "converted row = (case row of (d, a, c, x) \<Rightarrow> d \<noteq> None \<and> a \<noteq> NaN)"

definition present :: "timestamp option \<times> pyfloat \<times> cell \<times> cell \<Rightarrow> bool" where
  "present row = (case row of (d, a, c, x) \<Rightarrow> c \<noteq> NA \<and> x \<noteq> NA)"

subsection \<open>A fragment of the library for the examples\<close>

text \<open>
  The examples below run the program on a few texts and values. \<open>sample\<close> gives the
  library's results on exactly those: the dates 2024-01-05 and 2024-01-06 (2024-13-40
  is no date), the amounts, and the fields of a file, where a field among \<open>na_values\<close>
  (the texts that \<open>read_csv\<close> takes for a missing value by default) is missing and the
  other fields of the examples are read as they are. \<open>astype(str)\<close> is the one of
  pandas 2; no example has a missing category.
\<close>

definition na_values :: "string list" where
  "na_values = ['''', ''#N/A'', ''#N/A N/A'', ''#NA'', ''-1.#IND'', ''-1.#QNAN'', ''-NaN'',
     ''-nan'', ''1.#IND'', ''1.#QNAN'', ''<NA>'', ''N/A'', ''NA'', ''NULL'', ''NaN'', ''None'',
     ''n/a'', ''nan'', ''null'']"

definition sample_field :: "string \<Rightarrow> cell" where
  "sample_field s = (if s \<in> set na_values then NA else Text s)"

definition sample_date :: "string \<Rightarrow> timestamp option" where
  "sample_date s = map_of [(''2024-01-05'', Timestamp 2024 1 5 0),
                           (''2024-01-06'', Timestamp 2024 1 6 0)] s"

definition sample_number :: "string \<Rightarrow> pyfloat" where
  "sample_number s =
     (case map_of [(''100.0'', Fin 100), (''50.0'', Fin 50), (''10.0'', Fin 10)] s of
        Some a \<Rightarrow> a | None \<Rightarrow> NaN)"

definition at_index :: "('a \<Rightarrow> 'b) \<Rightarrow> 'b \<Rightarrow> 'a list \<Rightarrow> nat \<Rightarrow> 'b" where
  "at_index f missing xs i = (if i < length xs then f (xs ! i) else missing)"

definition sample :: lib where
  "sample =
     \<lparr>to_datetime = sample_date,
      py_float = map_of [(''100'', Fin 100), (''50'', Fin 50), (''10'', Fin 10),
                         (''0'', Fin 0), (''-5'', Fin (- 5)), (''nan'', NaN)],
      read_column = at_index sample_field NA,
      to_datetime_column = at_index (\<lambda>c. case c of NA \<Rightarrow> None | Text s \<Rightarrow> sample_date s) None,
      to_numeric_column = at_index (\<lambda>c. case c of NA \<Rightarrow> NaN | Text s \<Rightarrow> sample_number s) NaN,
      astype_str_na = Text ''nan'',
      csv_date = (\<lambda>d. if d = Timestamp 2024 1 5 0 then ''2024-01-05''
                       else if d = Timestamp 2024 1 6 0 then ''2024-01-06'' else []),
      csv_float = (\<lambda>a. if a = Fin 100 then ''100.0'' else if a = Fin 50 then ''50.0''
                        else if a = Fin 10 then ''10.0'' else [])\<rparr>"

text \<open>The files after \<open>__init__\<close> has found no file: one file with the header alone.\<close>

definition fresh_files :: files where
  "fresh_files = [''expenses.csv'' \<mapsto> []]"

definition two_expenses :: "expense list" where
  "two_expenses =
     [\<lparr>Date = Timestamp 2024 1 5 0, Amount = Fin 100, Category = ''Food'',
       Description = ''lunch''\<rparr>,
      \<lparr>Date = Timestamp 2024 1 6 0, Amount = Fin 50, Category = ''Transport'',
       Description = ''bus''\<rparr>]"

section \<open>Properties\<close>

lemma fless_not_fle: "fless a b \<Longrightarrow> \<not> fle b a"
  by (cases a; cases b) auto

lemma init_fresh:
  "init L ''expenses.csv'' Map.empty
     = (\<lparr>filename = ''expenses.csv'', data = []\<rparr>, fresh_files)"
  by (simp add: init_def fresh_files_def)

lemmas strptime_eval =
  strptime_def isdigit_def digit19_def digit_val_def days_in_month_def is_leap_def

lemmas sample_eval = sample_def sample_date_def

lemmas clean_eval =
  init_def read_csv_def clean_data_def dropna_def coerce_def column_def astype_str_def
  str_strip_def at_index_def sample_field_def sample_number_def na_values_def

subsection \<open>add_expense on a valid expense\<close>

text \<open>
  C1, as amended. When the date passes \<open>strptime\<close> and \<open>pd.to_datetime\<close> and the amount
  text converts to a float greater than zero, \<open>add_expense\<close> returns True; the new row,
  with its category stripped, is appended after the rows that were there, which keep
  their order; and the whole frame is written to the tracker's file, which then has one
  row for each row in memory: the number of rows in memory before the call, plus one.
  (The file has one row more than before only if it had as many rows as the frame;
  rows that \<open>_clean_data\<close> dropped from memory are still in the file until then.)
\<close>

theorem add_expense_appends:
  assumes "strptime date = Some ymd" and "to_datetime L date = Some d"
    and "py_float L amount = Some a" and "fless (Fin 0) a"
  shows "add_expense L t fs date amount category description =
           (True, '' Expense added successfully'',
            t\<lparr>data := data t @ [\<lparr>Date = d, Amount = a, Category = strip category,
                                  Description = description\<rparr>]\<rparr>,
            fs(filename t \<mapsto> to_csv L (data t @ [\<lparr>Date = d, Amount = a,
                 Category = strip category, Description = description\<rparr>])))
         \<and> store_rows (snd (snd (snd (add_expense L t fs date amount category description))))
             (filename t) = Some (length (data t) + 1)"
  using assms fless_not_fle[OF assms(4)]
  by (simp add: add_expense_def Let_def store_rows_def to_csv_def)

theorem add_expense_appends_witness:
  "add_expense sample \<lparr>filename = ''expenses.csv'', data = []\<rparr> fresh_files
      ''2024-01-05'' ''100'' '' Food '' ''lunch'' =
     (True, '' Expense added successfully'',
      \<lparr>filename = ''expenses.csv'',
       data = [\<lparr>Date = Timestamp 2024 1 5 0, Amount = Fin 100, Category = ''Food'',
                Description = ''lunch''\<rparr>]\<rparr>,
      [''expenses.csv'' \<mapsto> [(''2024-01-05'', ''100.0'', ''Food'', ''lunch'')]])"
  using add_expense_appends [of "''2024-01-05''" "(2024, 1, 5)" sample "Timestamp 2024 1 5 0"
      "''100''" "Fin 100" "\<lparr>filename = ''expenses.csv'', data = []\<rparr>" fresh_files
      "'' Food ''" "''lunch''"]
  by (simp add: strptime_eval sample_eval strip_def isspace_def to_csv_def fresh_files_def)

text \<open>
  C1 as stated fails on the row count. A first session adds an expense with an empty
  description; the file has one row. A second session reads the file, where the empty
  description is a missing value, so \<open>_clean_data\<close> drops the row from memory. The next
  valid \<open>add_expense\<close> succeeds and rewrites the file from memory: it had one row and
  has one row.
\<close>

theorem add_expense_row_count_counterexample:
  "(case init sample ''expenses.csv'' Map.empty of (t1, fs1) \<Rightarrow>
    case add_expense sample t1 fs1 ''2024-01-05'' ''100'' ''Food'' [] of
      (ok2, line2, t2, fs2) \<Rightarrow>
    case init sample ''expenses.csv'' fs2 of (t3, fs3) \<Rightarrow>
    case add_expense sample t3 fs3 ''2024-01-06'' ''50'' ''Transport'' ''bus'' of
      (ok4, line4, t4, fs4) \<Rightarrow>
      ok2 \<and> ok4 \<and> store_rows fs3 ''expenses.csv'' = Some 1
      \<and> store_rows fs4 ''expenses.csv'' = Some 1)"
  by (simp add: clean_eval add_expense_def strptime_eval sample_eval strip_def isspace_def
      to_csv_def store_rows_def Let_def)

subsection \<open>add_expense on an invalid amount\<close>

text \<open>
  C2, as amended. When \<open>float\<close> rejects the amount text (it raises a ValueError), or
  the amount text converts to a float that is at most zero, \<open>add_expense\<close> returns False
  and leaves the frame and the files as they were, whatever the date, the category and
  the description are; and when the date passes \<open>strptime\<close> and the amount converts (to a
  float that is at most zero), the line printed is the one of the kind InvalidAmount.
  An amount text that converts to NaN is not among these: \<open>float\<close> accepts it, and NaN
  is not at most zero.
\<close>

theorem add_expense_rejects_amount:
  assumes "py_float L amount = None \<or> (\<exists>a. py_float L amount = Some a \<and> fle a (Fin 0))"
  shows "\<exists>line. add_expense L t fs date amount category description = (False, line, t, fs)
           \<and> (strptime date \<noteq> None \<and> py_float L amount \<noteq> None
                \<longrightarrow> error_kind_of line = Some InvalidAmount)"
proof (cases "strptime date")
  case None
  then show ?thesis by (simp add: add_expense_def value_error_def)
next
  case (Some ymd)
  show ?thesis
  proof (cases "py_float L amount")
    case None
    with Some show ?thesis by (simp add: add_expense_def value_error_def)
  next
    case (Some a)
    with assms have "fle a (Fin 0)" by simp
    with Some \<open>strptime date = Some ymd\<close> show ?thesis
      by (simp add: add_expense_def error_kind_of_def)
  qed
qed

theorem add_expense_rejects_amount_witness:
  "add_expense sample \<lparr>filename = ''expenses.csv'', data = []\<rparr> fresh_files
      ''2024-01-05'' ''-5'' ''Food'' ''x''
     = (False, ''Amount must be positive.'', \<lparr>filename = ''expenses.csv'', data = []\<rparr>,
        fresh_files)
   \<and> error_kind_of ''Amount must be positive.'' = Some InvalidAmount
   \<and> strptime ''2024-01-05'' \<noteq> None \<and> py_float sample ''-5'' = Some (Fin (- 5))
   \<and> fle (Fin (- 5)) (Fin 0)"
  using add_expense_rejects_amount [of sample "''-5''"
      "\<lparr>filename = ''expenses.csv'', data = []\<rparr>" fresh_files "''2024-01-05''" "''Food''" "''x''"]
  by (simp add: add_expense_def strptime_eval sample_eval error_kind_of_def)

text \<open>
  C2 as stated fails in three ways. With a valid date and the amount text abc, \<open>float\<close>
  raises the ValueError that the one \<open>except\<close> clause answers with the line about the
  date format. With the date 2024-13-40 and the amount -5, the date is checked first
  and the same line is printed. And the amount text nan, which is no number, is not
  rejected at all: \<open>float\<close> converts it to NaN, \<open>NaN <= 0\<close> is false, and the expense is
  added.
\<close>

theorem add_expense_invalid_amount_counterexample:
  "(case add_expense sample \<lparr>filename = ''expenses.csv'', data = []\<rparr> fresh_files
           ''2024-01-05'' ''abc'' ''Food'' ''x'' of
      (ok, line, t, fs) \<Rightarrow> \<not> ok \<and> error_kind_of line = Some InvalidDateFormat)
   \<and> (case add_expense sample \<lparr>filename = ''expenses.csv'', data = []\<rparr> fresh_files
           ''2024-13-40'' ''-5'' ''Food'' ''x'' of
      (ok, line, t, fs) \<Rightarrow> \<not> ok \<and> error_kind_of line = Some InvalidDateFormat)
   \<and> (case add_expense sample \<lparr>filename = ''expenses.csv'', data = []\<rparr> fresh_files
           ''2024-01-05'' ''nan'' ''Food'' ''x'' of
      (ok, line, t, fs) \<Rightarrow> ok \<and> map Amount (data t) = [NaN])
   \<and> strptime ''2024-01-05'' = Some (2024, 1, 5) \<and> py_float sample ''abc'' = None
   \<and> py_float sample ''-5'' = Some (Fin (- 5)) \<and> py_float sample ''nan'' = Some NaN"
  by (simp add: add_expense_def value_error_def strptime_eval sample_eval error_kind_of_def
      Let_def strip_def isspace_def)

subsection \<open>add_expense on an invalid date\<close>

text \<open>
  C9. When the date text does not pass \<open>strptime\<close> with the format YYYY-MM-DD,
  \<open>add_expense\<close> returns False, prints the line of the kind InvalidDateFormat, and
  leaves the frame and the files as they were, whatever the amount text is (so also
  when it is numeric and positive).
\<close>

theorem add_expense_rejects_date:
  assumes "strptime date = None"
  shows "add_expense L t fs date amount category description
           = (False, ''Invalid date format! Use YYYY-MM-DD'', t, fs)
         \<and> error_kind_of (fst (snd (add_expense L t fs date amount category description)))
             = Some InvalidDateFormat"
  using assms by (simp add: add_expense_def value_error_def error_kind_of_def)

theorem add_expense_rejects_date_witness:
  "strptime ''2024-13-40'' = None
   \<and> add_expense sample \<lparr>filename = ''expenses.csv'', data = []\<rparr> fresh_files
        ''2024-13-40'' ''10'' ''Food'' ''x''
      = (False, ''Invalid date format! Use YYYY-MM-DD'',
         \<lparr>filename = ''expenses.csv'', data = []\<rparr>, fresh_files)"
proof -
  have h: "strptime ''2024-13-40'' = None" by (simp add: strptime_eval)
  show ?thesis using h add_expense_rejects_date [OF h] by simp
qed

subsection \<open>filter_expenses\<close>

lemma step_opt:
  "(case b of None \<Rightarrow> xs | Some s \<Rightarrow> filter (Q s) xs)
     = filter (\<lambda>r. case b of None \<Rightarrow> True | Some s \<Rightarrow> Q s r) xs"
  by (cases b) simp_all

lemma step_amount:
  "(case b of None \<Rightarrow> xs | Some s \<Rightarrow> if s = Fin 0 then xs else filter (Q s) xs)
     = filter (\<lambda>r. case b of None \<Rightarrow> True | Some s \<Rightarrow> s = Fin 0 \<or> Q s r) xs"
  by (cases b) simp_all

lemma filter_expenses_eq:
  "filter_expenses L t s e cs lo hi
     = (filter (matches L s e cs lo hi) (map lower_category (data t)), t)"
  unfolding filter_expenses_def Let_def step_opt step_amount filter_filter matches_def
  by (simp add: conj_ac cong: filter_cong)

lemmas text_eval = lower_def lower_char_def char_of_def bit_0 strip_def isspace_def

lemma of_char_lower: 
  "of_char (lower_char c) = (let n = of_char c :: nat
      in if (65 \<le> n \<and> n \<le> 90) \<or> (192 \<le> n \<and> n \<le> 214) \<or> (216 \<le> n \<and> n \<le> 222)
         then n + 32 else n)"
  by (auto simp: lower_char_def Let_def)

lemma isspace_lower_char: "isspace (lower_char c) = isspace c"
  unfolding isspace_def of_char_lower Let_def by auto

lemma lower_char_idem: "lower_char (lower_char c) = lower_char c"
proof -
  have "of_char (lower_char (lower_char c)) = (of_char (lower_char c) :: nat)"
    unfolding of_char_lower Let_def by auto
  then show ?thesis by (metis char_of_char)
qed


lemma dropWhile_rstrip:
  "ys = [] \<or> \<not> P (hd ys) \<Longrightarrow>
     dropWhile P (rev (dropWhile P (rev ys))) = rev (dropWhile P (rev ys))"
  by (cases ys) (simp_all add: dropWhile_append)

lemma strip_idem: "strip (strip s) = strip s"
proof -
  have "dropWhile isspace s = [] \<or> \<not> isspace (hd (dropWhile isspace s))"
    using hd_dropWhile [of isspace s] by blast
  then show ?thesis
    unfolding strip_def by (simp add: dropWhile_rstrip)
qed

lemma dropWhile_lower:
  "dropWhile isspace (map lower_char s) = map lower_char (dropWhile isspace s)"
  by (induction s) (simp_all add: isspace_lower_char)

lemma strip_lower: "strip (lower s) = lower (strip s)"
  unfolding strip_def lower_def
  by (simp add: dropWhile_lower rev_map)

lemma lower_idem: "lower (lower s) = lower s"
  by (simp add: lower_def lower_char_idem)

lemma lower_strip_idem: "lower (strip (lower (strip s))) = lower (strip s)"
  by (simp add: strip_lower strip_idem lower_idem)

lemma Category_lower_category:
  "Category (lower_category r) = lower (strip (Category r))"
  by (simp add: lower_category_def)

text \<open>
  C10. For every frame and every combination of arguments, \<open>filter_expenses\<close> returns
  the tracker as it was, and the sequence it returns is made of rows of the working copy,
  the frame with every category stripped and lowercased: the rows of the copy that pass
  the tests, in their order. Every category in the result is in its stripped and
  lowercased form, not in the form that is stored.
\<close>

theorem filter_expenses_copy:
  "snd (filter_expenses L t s e cs lo hi) = t
   \<and> fst (filter_expenses L t s e cs lo hi)
       = filter (matches L s e cs lo hi) (map lower_category (data t))
   \<and> map Category (fst (filter_expenses L t s e cs lo hi))
       = map (\<lambda>r. lower (strip (Category r))) (fst (filter_expenses L t s e cs lo hi))"
proof -
  have "Category r = lower (strip (Category r))"
    if "r \<in> set (filter (matches L s e cs lo hi) (map lower_category (data t)))" for r
    using that by (auto simp: Category_lower_category lower_strip_idem)
  then show ?thesis
    by (simp add: filter_expenses_eq)
qed

text \<open>
  C4, as amended. When a start date or an end date is supplied and does not convert to a
  date, \<open>filter_expenses\<close> returns the empty sequence: the bound is NaT, and the
  comparison of every row's date with it is false.
\<close>

theorem filter_expenses_bad_date_empty:
  assumes "to_datetime L x = None"
  shows "fst (filter_expenses L t (Some x) e cs lo hi) = []
         \<and> fst (filter_expenses L t s (Some x) cs lo hi) = []"
  using assms
  by (simp add: filter_expenses_eq matches_def date_ge_def date_le_def)

text \<open>
  C7. A minimum or a maximum amount of exactly zero gives the result of the same call
  without that bound; any other minimum \<open>b\<close> keeps the rows whose amount is at least
  \<open>b\<close>, and any other maximum \<open>b\<close> the rows whose amount is at most \<open>b\<close>, out of the
  result of the same call without that bound.
\<close>

theorem filter_expenses_zero_bound:
  "filter_expenses L t s e cs (Some (Fin 0)) hi = filter_expenses L t s e cs None hi
   \<and> filter_expenses L t s e cs lo (Some (Fin 0)) = filter_expenses L t s e cs lo None
   \<and> (b \<noteq> Fin 0 \<longrightarrow>
        fst (filter_expenses L t s e cs (Some b) hi)
          = filter (\<lambda>r. fle b (Amount r)) (fst (filter_expenses L t s e cs None hi))
        \<and> fst (filter_expenses L t s e cs lo (Some b))
          = filter (\<lambda>r. fle (Amount r) b) (fst (filter_expenses L t s e cs lo None)))"
  by (auto simp: filter_expenses_eq matches_def intro: filter_cong)

text \<open>
  C8. Whatever the other arguments are, the category list keeps exactly the rows of the
  result without it whose category (stripped and lowercased, as it is on the copy) is
  the stripped and lowercased form of one of the names supplied; in terms of the rows
  that are stored, when the category list is the only constraint the result is made of
  exactly the stored rows whose stripped and lowercased category is that of a supplied
  name. So two lists whose names have the same stripped and lowercased forms give the
  same result, as [Food] and [food] do, and a stored row whose category is Food followed
  by a space is in both results (with its category as food).
\<close>

theorem filter_expenses_category_case:
  "fst (filter_expenses L t s e (Some cs) lo hi)
     = filter (\<lambda>r. Category r \<in> set (map (\<lambda>c. lower (strip c)) cs))
         (fst (filter_expenses L t s e None lo hi))
   \<and> fst (filter_expenses L t None None (Some cs) None None)
     = map lower_category
         (filter (\<lambda>r. lower (strip (Category r)) \<in> set (map (\<lambda>c. lower (strip c)) cs))
            (data t))
   \<and> (set (map (\<lambda>c. lower (strip c)) cs) = set (map (\<lambda>c. lower (strip c)) cs') \<longrightarrow>
        fst (filter_expenses L t s e (Some cs) lo hi)
          = fst (filter_expenses L t s e (Some cs') lo hi))
   \<and> fst (filter_expenses L t s e (Some [''Food'']) lo hi)
     = fst (filter_expenses L t s e (Some [''food'']) lo hi)
   \<and> (r \<in> set (data t) \<and> Category r = ''Food '' \<longrightarrow>
        r\<lparr>Category := ''food''\<rparr>
          \<in> set (fst (filter_expenses L t None None (Some [''Food'']) None None))
        \<and> r\<lparr>Category := ''food''\<rparr>
          \<in> set (fst (filter_expenses L t None None (Some [''food'']) None None)))"
proof -
  have a: "lower (strip ''Food'') = ''food''" by (simp add: text_eval)
  have b: "lower (strip ''food'') = ''food''" by (simp add: text_eval)
  have c: "lower (strip ''Food '') = ''food''" by (simp add: text_eval)
  have one: "fst (filter_expenses L t s e (Some cs) lo hi)
     = filter (\<lambda>r. Category r \<in> set (map (\<lambda>c. lower (strip c)) cs))
         (fst (filter_expenses L t s e None lo hi))" for cs
    by (auto simp: filter_expenses_eq matches_def intro: filter_cong)
  have two: "fst (filter_expenses L t None None (Some cs) None None)
     = map lower_category
         (filter (\<lambda>r. lower (strip (Category r)) \<in> set (map (\<lambda>c. lower (strip c)) cs))
            (data t))" for cs
    by (simp add: filter_expenses_eq matches_def filter_map comp_def Category_lower_category)
  have three: "fst (filter_expenses L t s e (Some cs) lo hi)
          = fst (filter_expenses L t s e (Some cs') lo hi)"
    if "set (map (\<lambda>c. lower (strip c)) cs) = set (map (\<lambda>c. lower (strip c)) cs')"
    using that by (simp only: one)
  have four: "fst (filter_expenses L t s e (Some [''Food'']) lo hi)
     = fst (filter_expenses L t s e (Some [''food'']) lo hi)"
    by (simp add: one a b)
  have five: "r\<lparr>Category := ''food''\<rparr>
      \<in> set (fst (filter_expenses L t None None (Some [c']) None None))"
    if "r \<in> set (data t)" and "Category r = ''Food ''" and "lower (strip c') = ''food''" for c'
  proof -
    have "lower_category r = r\<lparr>Category := ''food''\<rparr>"
      using that(2) c by (simp add: lower_category_def)
    moreover have "lower (strip (Category r)) \<in> set (map (\<lambda>c. lower (strip c)) [c'])"
      using that(2,3) c by simp
    ultimately show ?thesis
      using that(1) unfolding two by force
  qed
  show ?thesis
    using one [of cs] two [of cs] three four five [OF _ _ a] five [OF _ _ b] by blast
qed

lemmas filter_eval =
  filter_expenses_def Let_def lower_category_def date_ge_def date_le_def two_expenses_def
  sample_eval

theorem filter_expenses_copy_witness:
  "filter_expenses sample \<lparr>filename = ''expenses.csv'', data = two_expenses\<rparr>
      None None (Some ['' FOOD'']) None None
     = ([\<lparr>Date = Timestamp 2024 1 5 0, Amount = Fin 100, Category = ''food'',
          Description = ''lunch''\<rparr>],
        \<lparr>filename = ''expenses.csv'', data = two_expenses\<rparr>)"
  using filter_expenses_copy [of sample "\<lparr>filename = ''expenses.csv'', data = two_expenses\<rparr>"
      None None "Some ['' FOOD'']" None None]
  by (simp add: filter_eval text_eval)

theorem filter_expenses_bad_date_empty_witness:
  "to_datetime sample ''2024-13-40'' = None
   \<and> fst (filter_expenses sample \<lparr>filename = ''expenses.csv'', data = two_expenses\<rparr>
        (Some ''2024-13-40'') None None None None) = []
   \<and> fst (filter_expenses sample \<lparr>filename = ''expenses.csv'', data = two_expenses\<rparr>
        None (Some ''2024-13-40'') None None None) = []"
proof -
  have h: "to_datetime sample ''2024-13-40'' = None" by (simp add: sample_eval)
  show ?thesis
    using h filter_expenses_bad_date_empty [OF h,
        of "\<lparr>filename = ''expenses.csv'', data = two_expenses\<rparr>" None None None None None]
    by simp
qed

text \<open>
  C4 as stated fails: on the frame of two expenses, the start date 2024-13-40 gives no
  row, and the same call without a start date gives both rows.
\<close>

theorem filter_expenses_bad_date_counterexample:
  "fst (filter_expenses sample \<lparr>filename = ''expenses.csv'', data = two_expenses\<rparr>
        (Some ''2024-13-40'') None None None None) = []
   \<and> length (fst (filter_expenses sample \<lparr>filename = ''expenses.csv'', data = two_expenses\<rparr>
        None None None None None)) = 2
   \<and> to_datetime sample ''2024-13-40'' = None"
  by (simp add: filter_eval)

theorem filter_expenses_zero_bound_witness:
  "fst (filter_expenses sample \<lparr>filename = ''expenses.csv'', data = two_expenses\<rparr>
        None None None (Some (Fin 100)) None)
     = filter (\<lambda>r. fle (Fin 100) (Amount r))
         (fst (filter_expenses sample \<lparr>filename = ''expenses.csv'', data = two_expenses\<rparr>
            None None None None None))
   \<and> map Amount (fst (filter_expenses sample \<lparr>filename = ''expenses.csv'', data = two_expenses\<rparr>
        None None None (Some (Fin 100)) None)) = [Fin 100]
   \<and> map Amount (fst (filter_expenses sample \<lparr>filename = ''expenses.csv'', data = two_expenses\<rparr>
        None None None None (Some (Fin 50)))) = [Fin 50]
   \<and> map Amount (fst (filter_expenses sample \<lparr>filename = ''expenses.csv'', data = two_expenses\<rparr>
        None None None (Some (Fin 0)) (Some (Fin 0)))) = [Fin 100, Fin 50]"
  using filter_expenses_zero_bound [where L = sample
      and t = "\<lparr>filename = ''expenses.csv'', data = two_expenses\<rparr>"
      and s = None and e = None and cs = None and lo = None and hi = None and b = "Fin 100"]
  by (simp add: filter_eval)

theorem filter_expenses_category_case_witness:
  "fst (filter_expenses sample \<lparr>filename = ''expenses.csv'', data = two_expenses\<rparr>
         None None (Some ['' FOOD '']) None None)
     = [(hd two_expenses)\<lparr>Category := ''food''\<rparr>]
   \<and> set (map (\<lambda>c. lower (strip c)) ['' FOOD ''])
       = set (map (\<lambda>c. lower (strip c)) [''food'', ''Food''])
   \<and> fst (filter_expenses sample
         \<lparr>filename = ''expenses.csv'',
          data = [(hd two_expenses)\<lparr>Category := ''Food ''\<rparr>, last two_expenses]\<rparr>
         None None (Some [''Food'']) None None)
     = [(hd two_expenses)\<lparr>Category := ''food''\<rparr>]
   \<and> fst (filter_expenses sample
         \<lparr>filename = ''expenses.csv'',
          data = [(hd two_expenses)\<lparr>Category := ''Food ''\<rparr>, last two_expenses]\<rparr>
         None None (Some [''food'']) None None)
     = [(hd two_expenses)\<lparr>Category := ''food''\<rparr>]"
  using filter_expenses_category_case [where L = sample
      and t = "\<lparr>filename = ''expenses.csv'',
          data = [(hd two_expenses)\<lparr>Category := ''Food ''\<rparr>, last two_expenses]\<rparr>"
      and s = None and e = None and lo = None and hi = None and cs = "['' FOOD '']"
      and cs' = "[''food'', ''Food'']" and r = "(hd two_expenses)\<lparr>Category := ''Food ''\<rparr>"]
  by (simp add: filter_eval text_eval)

subsection \<open>The invariant: _clean_data and add_expense\<close>

lemma dropna_Some: "dropna z = Some r \<Longrightarrow> as_cells r = z \<and> Amount r \<noteq> NaN"
  by (auto simp: dropna_def as_cells_def split: prod.splits option.splits cell.splits if_splits)

lemma dropna_present: "present z \<Longrightarrow> (dropna z \<noteq> None) = converted z"
  by (auto simp: dropna_def present_def converted_def
           split: prod.splits option.splits cell.splits if_splits)

lemma map_filter_dropna:
  "map as_cells (List.map_filter dropna zs) = filter (\<lambda>z. dropna z \<noteq> None) zs"
  by (induction zs) (auto simp: List.map_filter_simps dest: dropna_Some split: option.splits)

lemma clean_data_cells:
  "map as_cells (clean_data L raw) = filter (\<lambda>z. dropna z \<noteq> None) (coerce L raw)"
  by (simp add: clean_data_def map_filter_dropna coerce_def column_def)

lemma clean_data_converted:
  assumes "list_all present (coerce L raw)"
  shows "map as_cells (clean_data L raw) = filter converted (coerce L raw)"
proof -
  have "(dropna z \<noteq> None) = converted z" if "z \<in> set (coerce L raw)" for z
    using assms that dropna_present [of z] unfolding list_all_iff by blast
  then have "filter (\<lambda>z. dropna z \<noteq> None) (coerce L raw) = filter converted (coerce L raw)"
    by (rule filter_cong [OF refl])
  then show ?thesis by (simp only: clean_data_cells)
qed

lemma in_clean_data:
  assumes "r \<in> set (clean_data L raw)"
  shows "as_cells r \<in> set (coerce L raw)" and "Amount r \<noteq> NaN"
proof -
  from assms have "r \<in> set (List.map_filter dropna (coerce L raw))"
    by (simp add: clean_data_def split: if_splits)
  then obtain z where z: "z \<in> set (coerce L raw)" "dropna z = Some r"
    by (auto simp: List.map_filter_def)
  with dropna_Some [OF z(2)] show "as_cells r \<in> set (coerce L raw)" and "Amount r \<noteq> NaN"
    by simp_all
qed

lemma in_coerce:
  assumes "(d, a, c, x) \<in> set (coerce L raw)"
  shows "\<exists>col i. d = to_datetime_column L col i" and "\<exists>c0. c = str_strip (astype_str L c0)"
proof -
  from assms have "d \<in> set (column (to_datetime_column L) (map (\<lambda>(d, a, c, x). d) raw))"
    unfolding coerce_def by (rule set_zip_leftD)
  then show "\<exists>col i. d = to_datetime_column L col i"
    by (auto simp: column_def)
  from assms have "(a, c, x) \<in> set
      (zip (column (to_numeric_column L) (map (\<lambda>(d, a, c, x). a) raw))
         (zip (map (\<lambda>(d, a, c, x). str_strip (astype_str L c)) raw)
              (map (\<lambda>(d, a, c, x). x) raw)))"
    unfolding coerce_def by (rule set_zip_rightD)
  then have "(c, x) \<in> set (zip (map (\<lambda>(d, a, c, x). str_strip (astype_str L c)) raw)
              (map (\<lambda>(d, a, c, x). x) raw))"
    by (rule set_zip_rightD)
  then have "c \<in> set (map (\<lambda>(d, a, c, x). str_strip (astype_str L c)) raw)"
    by (rule set_zip_leftD)
  then show "\<exists>c0. c = str_strip (astype_str L c0)"
    by auto
qed

lemma clean_data_dated:
  assumes "\<And>col i d. to_datetime_column L col i = Some d \<Longrightarrow> valid_timestamp d"
  shows "dated (clean_data L raw)"
  unfolding dated_def list_all_iff
proof
  fix r assume "r \<in> set (clean_data L raw)"
  then have "(Some (Date r), Amount r, Text (Category r), Text (Description r))
      \<in> set (coerce L raw)"
    using in_clean_data(1) [of r L raw] by (simp add: as_cells_def)
  from in_coerce(1) [OF this] obtain col i where "to_datetime_column L col i = Some (Date r)"
    by auto
  then show "valid_timestamp (Date r)" by (rule assms)
qed

lemma clean_data_trimmed: "trimmed (clean_data L raw)"
  unfolding trimmed_def list_all_iff
proof
  fix r assume "r \<in> set (clean_data L raw)"
  then have "(Some (Date r), Amount r, Text (Category r), Text (Description r))
      \<in> set (coerce L raw)"
    using in_clean_data(1) [of r L raw] by (simp add: as_cells_def)
  from in_coerce(2) [OF this] obtain c0 where "Text (Category r) = str_strip (astype_str L c0)"
    by auto
  then show "strip (Category r) = Category r"
    by (auto simp: str_strip_def strip_idem split: cell.splits)
qed

lemma clean_data_numeric: "numeric (clean_data L raw)"
  unfolding numeric_def list_all_iff using in_clean_data(2) by blast

lemma init_data:
  "data (fst (init L name fs))
     = (case fs name of None \<Rightarrow> [] | Some rows \<Rightarrow> clean_data L (read_csv L rows))"
  by (simp add: init_def split: option.splits)

lemma add_expense_cases:
  "add_expense L t fs date amount category description
     \<in> {value_error t fs, (False, ''Amount must be positive.'', t, fs)}
   \<or> (\<exists>d a. to_datetime L date = Some d \<and> py_float L amount = Some a
        \<and> add_expense L t fs date amount category description
            = (True, '' Expense added successfully'',
               t\<lparr>data := data t @ [\<lparr>Date = d, Amount = a, Category = strip category,
                                     Description = description\<rparr>]\<rparr>,
               fs(filename t \<mapsto> to_csv L (data t @ [\<lparr>Date = d, Amount = a,
                    Category = strip category, Description = description\<rparr>]))))"
  by (simp add: add_expense_def Let_def split: option.splits)

lemma sample_dates: "sample_date s = Some d \<Longrightarrow> valid_timestamp d"
  by (auto simp: sample_date_def days_in_month_def split: if_splits)

text \<open>
  C5, as amended. The library is taken to give dates of the calendar. After \<open>__init__\<close>
  (load and clean) every row in memory has a valid date, an amount that is a number,
  and a stripped category, which may be empty; and when every row read from the file
  has its category and its description, the rows in memory are exactly the rows whose
  date and amount converted, in their order. \<open>add_expense\<close> keeps every date valid and
  every category stripped; it keeps every amount a number when the amount text does not
  convert to NaN; and when it succeeds, the file holds exactly the rows in memory.
  (Before the first \<open>add_expense\<close> the file still holds the rows that \<open>_clean_data\<close>
  dropped from memory.)
\<close>

theorem clean_and_add_invariant:
  assumes lib1: "\<And>s d. to_datetime L s = Some d \<Longrightarrow> valid_timestamp d"
    and lib2: "\<And>col i d. to_datetime_column L col i = Some d \<Longrightarrow> valid_timestamp d"
  shows "dated (data (fst (init L name fs))) \<and> numeric (data (fst (init L name fs)))
         \<and> trimmed (data (fst (init L name fs)))
         \<and> (fs name = Some rows \<and> list_all present (coerce L (read_csv L rows)) \<longrightarrow>
              map as_cells (data (fst (init L name fs)))
                = filter converted (coerce L (read_csv L rows)))
         \<and> (dated (data t) \<and> trimmed (data t) \<longrightarrow>
              dated (data (fst (snd (snd (add_expense L t fs date amount category description)))))
              \<and> trimmed (data (fst (snd (snd (add_expense L t fs date amount category
                   description))))))
         \<and> (numeric (data t) \<and> py_float L amount \<noteq> Some NaN \<longrightarrow>
              numeric (data (fst (snd (snd (add_expense L t fs date amount category
                 description))))))
         \<and> (fst (add_expense L t fs date amount category description) \<longrightarrow>
              snd (snd (snd (add_expense L t fs date amount category description))) (filename t)
                = Some (to_csv L (data (fst (snd (snd (add_expense L t fs date amount category
                     description)))))))"
proof -
  have i1: "dated (data (fst (init L name fs)))"
    using clean_data_dated [of L, OF lib2] by (simp add: init_data dated_def split: option.splits)
  have i2: "numeric (data (fst (init L name fs)))"
    using clean_data_numeric by (simp add: init_data numeric_def split: option.splits)
  have i3: "trimmed (data (fst (init L name fs)))"
    using clean_data_trimmed by (simp add: init_data trimmed_def split: option.splits)
  have i4: "map as_cells (data (fst (init L name fs)))
              = filter converted (coerce L (read_csv L rows))"
    if "fs name = Some rows" and "list_all present (coerce L (read_csv L rows))"
    using that by (simp add: init_data clean_data_converted)
  note c = add_expense_cases [of L t fs date amount category description]
  have a1: "dated (data (fst (snd (snd (add_expense L t fs date amount category description)))))
        \<and> trimmed (data (fst (snd (snd (add_expense L t fs date amount category description)))))"
    if "dated (data t)" and "trimmed (data t)"
    using c that lib1 by (auto simp: value_error_def dated_def trimmed_def strip_idem)
  have a2: "numeric (data (fst (snd (snd (add_expense L t fs date amount category description)))))"
    if "numeric (data t)" and "py_float L amount \<noteq> Some NaN"
    using c that by (auto simp: value_error_def numeric_def)
  have a3: "snd (snd (snd (add_expense L t fs date amount category description))) (filename t)
      = Some (to_csv L (data (fst (snd (snd (add_expense L t fs date amount category
                     description))))))"
    if "fst (add_expense L t fs date amount category description)"
    using c that by (auto simp: value_error_def)
  show ?thesis using i1 i2 i3 i4 a1 a2 a3 by blast
qed

theorem clean_and_add_invariant_witness:
  "data (fst (init sample ''expenses.csv''
       [''expenses.csv'' \<mapsto> [(''2024-01-05'', ''100.0'', '' Food'', ''lunch''),
                                (''2024-13-40'', ''50.0'', ''Transport'', ''bus'')]]))
     = [hd two_expenses]
   \<and> list_all present (coerce sample (read_csv sample
         [(''2024-01-05'', ''100.0'', '' Food'', ''lunch''),
          (''2024-13-40'', ''50.0'', ''Transport'', ''bus'')]))
   \<and> dated [hd two_expenses] \<and> trimmed [hd two_expenses] \<and> numeric [hd two_expenses]
   \<and> add_expense sample \<lparr>filename = ''expenses.csv'', data = [hd two_expenses]\<rparr> fresh_files
         ''2024-01-06'' ''50'' ''Transport '' ''bus''
       = (True, '' Expense added successfully'',
          \<lparr>filename = ''expenses.csv'', data = two_expenses\<rparr>,
          [''expenses.csv'' \<mapsto> to_csv sample two_expenses])
   \<and> dated two_expenses \<and> trimmed two_expenses \<and> numeric two_expenses"
proof -
  have l1: "\<And>s d. to_datetime sample s = Some d \<Longrightarrow> valid_timestamp d"
    by (simp add: sample_def sample_dates)
  have l2: "\<And>col i d. to_datetime_column sample col i = Some d \<Longrightarrow> valid_timestamp d"
    by (auto simp: sample_def at_index_def sample_dates split: if_splits cell.splits)
  show ?thesis
    using clean_and_add_invariant [where L = sample and name = "''expenses.csv''"
      and fs = "[''expenses.csv'' \<mapsto> [(''2024-01-05'', ''100.0'', '' Food'', ''lunch''),
                                (''2024-13-40'', ''50.0'', ''Transport'', ''bus'')]]"
      and rows = "[(''2024-01-05'', ''100.0'', '' Food'', ''lunch''),
                                (''2024-13-40'', ''50.0'', ''Transport'', ''bus'')]"
      and t = "\<lparr>filename = ''expenses.csv'', data = [hd two_expenses]\<rparr>"
      and date = "''2024-01-06''" and amount = "''50''" and category = "''Transport ''"
      and description = "''bus''", OF l1 l2]
    by (simp add: clean_eval sample_eval two_expenses_def add_expense_def strptime_eval Let_def
        strip_def isspace_def dated_def trimmed_def numeric_def present_def days_in_month_def
        fresh_files_def)
qed

text \<open>
  C5 as stated fails in four places. \<open>add_expense\<close> does not look at the category: with
  a category of two spaces it succeeds and appends a row whose category is empty. It
  lets the amount text nan in, and the amount in memory is NaN. \<open>dropna\<close> looks at all
  four columns: a row of the file with a valid date, a numeric amount and the category
  Food, but an empty description, is dropped. And \<open>_clean_data\<close> cleans the frame in
  memory only: after \<open>__init__\<close> the file still holds the row whose date is no date.
\<close>

theorem invariant_counterexample:
  "(case add_expense sample \<lparr>filename = ''expenses.csv'', data = []\<rparr> fresh_files
           ''2024-01-05'' ''100'' ''  '' ''lunch'' of
      (ok, line, t, fs) \<Rightarrow> ok \<and> map Category (data t) = [[]])
   \<and> (case add_expense sample \<lparr>filename = ''expenses.csv'', data = []\<rparr> fresh_files
           ''2024-01-05'' ''nan'' ''Food'' ''lunch'' of
      (ok, line, t, fs) \<Rightarrow> ok \<and> map Amount (data t) = [NaN])
   \<and> data (fst (init sample ''expenses.csv''
        [''expenses.csv'' \<mapsto> [(''2024-01-05'', ''100.0'', ''Food'', [])]])) = []
   \<and> (case init sample ''expenses.csv''
             [''expenses.csv'' \<mapsto> [(''2024-13-40'', ''50.0'', ''Transport'', ''bus'')]] of
        (t, fs) \<Rightarrow> data t = []
           \<and> fs ''expenses.csv'' = Some [(''2024-13-40'', ''50.0'', ''Transport'', ''bus'')])"
  by (simp add: clean_eval sample_eval add_expense_def strptime_eval Let_def strip_def
      isspace_def)

subsection \<open>Writing the file and reading it back\<close>

text \<open>
  C6, which the program does not meet. \<open>add_expense\<close> takes an expense with a valid
  date, a positive amount and an empty description, keeps it in memory and writes the
  frame to the file. Loading that file with \<open>__init__\<close> gives an empty frame, not the
  frame that was written: the empty field is read as a missing value, and \<open>dropna\<close>,
  which looks at all four columns, drops the row.
\<close>

theorem reload_drops_empty_description:
  "(case add_expense sample \<lparr>filename = ''expenses.csv'', data = []\<rparr> fresh_files
           ''2024-01-05'' ''100'' ''Food'' [] of
      (ok, line, t, fs) \<Rightarrow>
        ok \<and> data t = [\<lparr>Date = Timestamp 2024 1 5 0, Amount = Fin 100, Category = ''Food'',
                         Description = []\<rparr>]
        \<and> fs ''expenses.csv'' = Some (to_csv sample (data t))
        \<and> data (fst (init sample ''expenses.csv'' fs)) = [])"
  by (simp add: clean_eval sample_eval add_expense_def strptime_eval Let_def strip_def
      isspace_def to_csv_def)

end
